theory Spec2Isabelle
  imports Main "HOL-Library.AList"
begin

section \<open>Room registry and router of \<open>app.py\<close>\<close>

text \<open>
  The server keeps one global dictionary \<open>active_rooms\<close> from room code to a room, a room
  being the two lists \<open>senders\<close> and \<open>receivers\<close> of connection ids. Four Socket.IO
  handlers read and change it: \<open>handle_disconnect\<close>, \<open>on_join\<close>, \<open>handle_text\<close> and
  \<open>handle_live_control\<close>.

  The embedding passes the dictionary explicitly and returns, next to the new dictionary,
  the list of what the handler asked the transport to do, in program order: every
  \<open>emit\<close> and every \<open>join_room\<close> subscription.

  \<^item> A Python dictionary keeps its keys in insertion order and \<open>handle_disconnect\<close> walks
    them in that order, so the registry is an association list. \<open>AList.update\<close> replaces
    the value of a key that is present where it stands and appends a new key at the end,
    as assignment to a dictionary does; \<open>AList.delete\<close> is \<open>del\<close>. A dictionary never
    holds a key twice: the lists that stand for one have distinct keys.
  \<^item> The fields \<open>code\<close>, \<open>type\<close>, \<open>text\<close> and \<open>control\<close> of an incoming payload are
    strings, as the event contract fixes; a field may be absent, or present with the
    value \<open>null\<close> (\<open>None\<close> here).
\<close>

subsection \<open>Data\<close>

type_synonym sid = string

record room =
  senders :: "sid list"
  receivers :: "sid list"

type_synonym registry = "(string \<times> room) list"

text \<open>An incoming payload: field name to string, or to \<open>null\<close>.\<close>

type_synonym data = "(string \<times> string option) list"

text \<open>\<open>data.get(k)\<close> and \<open>data.get(k, d)\<close>.\<close>

definition get :: "data \<Rightarrow> string \<Rightarrow> string option" where
  "get d k = (case map_of d k of None \<Rightarrow> None | Some v \<Rightarrow> v)"

definition get_default :: "data \<Rightarrow> string \<Rightarrow> string \<Rightarrow> string option" where
  "get_default d k dflt = (case map_of d k of None \<Rightarrow> Some dflt | Some v \<Rightarrow> v)"

text \<open>Python's truth value of a field: \<open>None\<close> and the empty string are false.\<close>

fun truthy :: "string option \<Rightarrow> bool" where
  "truthy None = False"
| "truthy (Some s) = (s \<noteq> [])"

text \<open>The values the server itself writes into a payload.\<close>

datatype jval = JBool bool | JStr string

text \<open>
  The payload of an emitted event: a dictionary literal of the handler, or the payload
  the handler received, passed on as it is.
\<close>

datatype body = Dict "(string \<times> jval) list" | Data data

text \<open>
  Where an event goes. \<open>emit\<close> without \<open>to\<close> answers the connection whose event is being
  handled; with \<open>to\<close> it goes to a broadcast group, \<open>skip_sid\<close> leaving one connection out.
\<close>

datatype dest = To_sid sid | To_group string "sid option"

datatype effect =
    Emit string body dest
  | Join_room sid string

subsection \<open>Handlers\<close>

definition no_room :: room where
  "no_room = \<lparr>senders = [], receivers = []\<rparr>"

text \<open>
  One round of the loop of \<open>handle_disconnect\<close>, for the key \<open>room_code\<close> of the snapshot
  \<open>list(active_rooms.keys())\<close>. \<open>list.remove\<close> takes out the first occurrence. The test
  \<open>room.get('receivers')\<close> is made after the sender was removed and before the receiver
  is. The key comes from the dictionary itself and no round deletes another key, so
  \<open>active_rooms[room_code]\<close> finds it; the branch for a missing key stands for the
  \<open>KeyError\<close> that a dictionary cannot produce here, and leaves everything as it is.
\<close>

definition disconnect_room ::
  "sid \<Rightarrow> string \<Rightarrow> registry \<times> effect list \<Rightarrow> registry \<times> effect list" where
  "disconnect_room sid room_code st =
     (case st of (rooms, out) \<Rightarrow>
        (case map_of rooms room_code of
           None \<Rightarrow> (rooms, out)
         | Some room \<Rightarrow>
             (let was_sender = (sid \<in> set (senders room));
                  was_receiver = (sid \<in> set (receivers room));
                  room1 = (if was_sender
                           then room\<lparr>senders := remove1 sid (senders room)\<rparr> else room);
                  out1 = (if was_sender \<and> receivers room1 \<noteq> []
                          then out @ [Emit ''room_status''
                                 (Dict [(''status'', JStr ''sender_left''),
                                        (''message'', JStr ''Sender has left the room'')])
                                 (To_group (room_code @ ''_recv'') None)]
                          else out);
                  room2 = (if was_receiver
                           then room1\<lparr>receivers := remove1 sid (receivers room1)\<rparr>
                           else room1)
              in if senders room2 = [] \<and> receivers room2 = []
                 then (AList.delete room_code rooms, out1)
                 else (AList.update room_code room2 rooms, out1))))"

definition handle_disconnect :: "sid \<Rightarrow> registry \<Rightarrow> registry \<times> effect list" where
  "handle_disconnect sid rooms = fold (disconnect_room sid) (map fst rooms) (rooms, [])"

text \<open>
  \<open>on_join\<close> after its guard, with the room code and the device type at hand.
  \<open>room0\<close> is \<open>active_rooms[room_code]\<close> once the room was initialised, \<open>room1\<close> the same
  object after the \<open>if\<close>/\<open>elif\<close> on the device type, which has no \<open>else\<close>.
\<close>

definition joined :: "sid \<Rightarrow> string \<Rightarrow> string \<Rightarrow> registry \<Rightarrow> registry \<times> effect list" where
  "joined sid room_code device_type rooms =
     (let room0 = (case map_of rooms room_code of None \<Rightarrow> no_room | Some r \<Rightarrow> r);
          room1 =
            (if device_type = ''sender''
             then (if sid \<notin> set (senders room0)
                   then room0\<lparr>senders := senders room0 @ [sid]\<rparr> else room0)
             else if device_type = ''receiver''
             then (if sid \<notin> set (receivers room0)
                   then room0\<lparr>receivers := receivers room0 @ [sid]\<rparr> else room0)
             else room0);
          subs =
            (if device_type = ''sender'' then [Join_room sid room_code]
             else if device_type = ''receiver''
             then [Join_room sid room_code, Join_room sid (room_code @ ''_recv'')]
             else []);
          has_sender = (length (senders room1) > 0);
          has_receiver = (length (receivers room1) > 0);
          room_active = (has_sender \<and> has_receiver)
      in (AList.update room_code room1 rooms,
          subs
          @ [Emit ''room_joined''
               (Dict [(''message'', JStr (device_type @ '' joined'')),
                      (''type'', JStr device_type),
                      (''room_active'', JBool room_active),
                      (''has_sender'', JBool has_sender),
                      (''has_receiver'', JBool has_receiver)])
               (To_sid sid)]
          @ (if room_active
             then [Emit ''room_status''
                     (Dict [(''status'', JStr ''active''),
                            (''message'', JStr ''Both sender and receiver connected'')])
                     (To_group room_code (Some sid))]
             else [])))"

definition on_join :: "sid \<Rightarrow> data \<Rightarrow> registry \<Rightarrow> registry \<times> effect list" where
  "on_join sid d rooms =
     (let room_code = get d ''code''; device_type = get d ''type''
      in if \<not> truthy room_code \<or> \<not> truthy device_type
         then (rooms, [Emit ''error''
                         (Dict [(''message'', JStr ''Invalid room code or device type'')])
                         (To_sid sid)])
         else (case (room_code, device_type) of
                 (Some rc, Some dt) \<Rightarrow> joined sid rc dt rooms
               | _ \<Rightarrow> (rooms, [])))"

text \<open>\<open>room_code in active_rooms and active_rooms[room_code]['receivers']\<close>.\<close>

definition has_receivers :: "registry \<Rightarrow> string \<Rightarrow> bool" where
  "has_receivers rooms room_code =
     (case map_of rooms room_code of None \<Rightarrow> False | Some r \<Rightarrow> receivers r \<noteq> [])"

definition handle_text :: "sid \<Rightarrow> data \<Rightarrow> registry \<Rightarrow> registry \<times> effect list" where
  "handle_text sid d rooms =
     (let room_code = get d ''code''; text = get_default d ''text'' ''''
      in if truthy room_code \<and> truthy text
         then (case room_code of
                 Some rc \<Rightarrow>
                   if has_receivers rooms rc
                   then (rooms, [Emit ''receive_text'' (Data d) (To_group (rc @ ''_recv'') None)])
                   else (rooms, [Emit ''error''
                                   (Dict [(''message'', JStr ''No receivers in room'')])
                                   (To_sid sid)])
               | None \<Rightarrow> (rooms, []))
         else (rooms, []))"

definition handle_live_control :: "sid \<Rightarrow> data \<Rightarrow> registry \<Rightarrow> registry \<times> effect list" where
  "handle_live_control sid d rooms =
     (let room_code = get d ''code''; control = get d ''control''
      in if \<not> truthy room_code \<or> \<not> truthy control
         then (rooms, [Emit ''error''
                         (Dict [(''message'', JStr ''Invalid live control payload'')])
                         (To_sid sid)])
         else (case room_code of
                 Some rc \<Rightarrow>
                   if has_receivers rooms rc
                   then (rooms, [Emit ''receive_live_control'' (Data d)
                                   (To_group (rc @ ''_recv'') None)])
                   else (rooms, [Emit ''error''
                                   (Dict [(''message'', JStr ''No receivers in room'')])
                                   (To_sid sid)])
               | None \<Rightarrow> (rooms, [])))"

subsection \<open>Sequences of events\<close>

text \<open>
  The events a connection can raise. \<open>handle_connect\<close> only prints. \<open>run\<close> is the
  registry after a list of events, handled one after the other.
\<close>

datatype event =
    Connect sid
  | Disconnect sid
  | Join sid data
  | Send_text sid data
  | Send_live_control sid data

fun handle :: "event \<Rightarrow> registry \<Rightarrow> registry \<times> effect list" where
  "handle (Connect sid) rooms = (rooms, [])"
| "handle (Disconnect sid) rooms = handle_disconnect sid rooms"
| "handle (Join sid d) rooms = on_join sid d rooms"
| "handle (Send_text sid d) rooms = handle_text sid d rooms"
| "handle (Send_live_control sid d) rooms = handle_live_control sid d rooms"

definition run :: "event list \<Rightarrow> registry \<Rightarrow> registry" where
  "run evs rooms = foldl (\<lambda>r e. fst (handle e r)) rooms evs"

subsection \<open>Notions used in the statements\<close>

text \<open>
  What a disconnect of \<open>sid\<close> comes to on a dictionary, said without the loop: every
  room loses the first occurrence of \<open>sid\<close> in each list, the rooms left with two empty
  lists go, and the receivers of a room that loses a sender are told. These are not
  taken from the program; \<open>handle_disconnect_eq\<close> proves that the loop computes them.
\<close>

definition leave :: "sid \<Rightarrow> room \<Rightarrow> room" where
  "leave sid r =
     \<lparr>senders = remove1 sid (senders r), receivers = remove1 sid (receivers r)\<rparr>"

definition deserted :: "room \<Rightarrow> bool" where
  "deserted r = (senders r = [] \<and> receivers r = [])"

definition sender_left :: "string \<Rightarrow> effect" where
  "sender_left room_code =
     Emit ''room_status''
       (Dict [(''status'', JStr ''sender_left''),
              (''message'', JStr ''Sender has left the room'')])
       (To_group (room_code @ ''_recv'') None)"

definition notices :: "sid \<Rightarrow> registry \<Rightarrow> effect list" where
  "notices sid rooms =
     map (\<lambda>(rc, r). sender_left rc)
       (filter (\<lambda>(rc, r). sid \<in> set (senders r) \<and> receivers r \<noteq> []) rooms)"

definition survivors :: "sid \<Rightarrow> registry \<Rightarrow> registry" where
  "survivors sid rooms =
     filter (\<lambda>(rc, r). \<not> deserted r) (map (\<lambda>(rc, r). (rc, leave sid r)) rooms)"

text \<open>
  A registry as the program can hold it: a dictionary (no key twice) whose lists hold no
  connection twice. \<open>tidy_run\<close> proves it of every registry the handlers produce.
\<close>

definition tidy :: "registry \<Rightarrow> bool" where
  "tidy rooms =
     (distinct (map fst rooms) \<and>
      (\<forall>(rc, r) \<in> set rooms. distinct (senders r) \<and> distinct (receivers r)))"

text \<open>
  The connection \<open>sid\<close> has, among the events \<open>evs\<close>, asked to join the room \<open>room_code\<close>
  with the device type \<open>role\<close>.
\<close>

definition joined_as :: "sid \<Rightarrow> string \<Rightarrow> string \<Rightarrow> event list \<Rightarrow> bool" where
  "joined_as sid room_code role evs =
     list_ex (\<lambda>e. case e of
                 Join s d \<Rightarrow> s = sid \<and> get d ''code'' = Some room_code
                                     \<and> get d ''type'' = Some role
               | _ \<Rightarrow> False) evs"

text \<open>
  Every \<open>join_room\<close> request among \<open>evs\<close> that passes the guard of \<open>on_join\<close> has the
  device type \<open>sender\<close> or \<open>receiver\<close>.
\<close>

definition known_roles :: "event list \<Rightarrow> bool" where
  "known_roles evs =
     list_all (\<lambda>e. case e of
                 Join s d \<Rightarrow> truthy (get d ''code'') \<and> truthy (get d ''type'') \<longrightarrow>
                              get d ''type'' = Some ''sender'' \<or>
                              get d ''type'' = Some ''receiver''
               | _ \<Rightarrow> True) evs"

section \<open>Properties\<close>

subsection \<open>Payload fields\<close>

lemma truthy_iff: "truthy x \<longleftrightarrow> x \<noteq> None \<and> x \<noteq> Some []"
  by (cases x) auto

lemma truthy_get_default: "truthy (get_default d k []) = truthy (get d k)"
  by (simp add: get_default_def get_def split: option.splits)

lemma on_join_accept:
  "get d ''code'' = Some rc \<Longrightarrow> rc \<noteq> [] \<Longrightarrow> get d ''type'' = Some dt \<Longrightarrow> dt \<noteq> [] \<Longrightarrow>
   on_join sid d rooms = joined sid rc dt rooms"
  by (simp add: on_join_def)

lemma on_join_reject:
  "\<not> truthy (get d ''code'') \<or> \<not> truthy (get d ''type'') \<Longrightarrow>
   on_join sid d rooms =
     (rooms, [Emit ''error'' (Dict [(''message'', JStr ''Invalid room code or device type'')])
                (To_sid sid)])"
  by (auto simp: on_join_def Let_def)

subsection \<open>The loop of \<open>handle_disconnect\<close>\<close>

lemma update_mid:
  "k \<notin> fst ` set pre \<Longrightarrow> AList.update k v (pre @ (k, r) # suf) = pre @ (k, v) # suf"
  by (induction pre) auto

lemma delete_mid:
  "k \<notin> fst ` set pre \<Longrightarrow> k \<notin> fst ` set suf \<Longrightarrow>
   AList.delete k (pre @ (k, r) # suf) = pre @ suf"
  by (induction pre) (auto simp: AList.delete_id)

lemma map_of_mid:
  "k \<notin> fst ` set pre \<Longrightarrow> map_of (pre @ (k, r) # suf) k = Some r"
  by (induction pre) auto

lemma disconnect_room_mid:
  assumes "k \<notin> fst ` set pre" "k \<notin> fst ` set suf"
  shows "disconnect_room sid k (pre @ (k, r) # suf, out) =
           (pre @ (if deserted (leave sid r) then [] else [(k, leave sid r)]) @ suf,
            out @ (if sid \<in> set (senders r) \<and> receivers r \<noteq> []
                   then [sender_left k] else []))"
proof -
  have m: "map_of (pre @ (k, r) # suf) k = Some r"
    using assms(1) by (rule map_of_mid)
  have u: "\<And>v. AList.update k v (pre @ (k, r) # suf) = pre @ (k, v) # suf"
    using assms(1) by (rule update_mid)
  have d: "AList.delete k (pre @ (k, r) # suf) = pre @ suf"
    using assms by (rule delete_mid)
  show ?thesis
    unfolding disconnect_room_def prod.case m option.case u d Let_def
    by (auto simp add: leave_def deserted_def sender_left_def remove1_idem)
qed

text \<open>
  The loop invariant: the rooms before the current key are done, the rooms from it on are
  as they were.
\<close>

lemma fold_disconnect_room:
  "distinct (map fst (pre @ suf)) \<Longrightarrow>
   fold (disconnect_room sid) (map fst suf) (pre @ suf, out) =
     (pre @ survivors sid suf, out @ notices sid suf)"
proof (induction suf arbitrary: pre out)
  case Nil
  then show ?case by (simp add: survivors_def notices_def)
next
  case (Cons a suf)
  obtain k r where a: "a = (k, r)" by (cases a)
  from Cons.prems a have k: "k \<notin> fst ` set pre" "k \<notin> fst ` set suf"
    and d: "distinct (map fst (pre @ suf))"
      "distinct (map fst ((pre @ [(k, leave sid r)]) @ suf))"
    by auto
  show ?case
  proof (cases "deserted (leave sid r)")
    case True
    with Cons.IH[OF d(1)] k show ?thesis
      by (simp add: a disconnect_room_mid survivors_def notices_def)
  next
    case False
    with Cons.IH[OF d(2)] k show ?thesis
      by (simp add: a disconnect_room_mid survivors_def notices_def)
  qed
qed

lemma handle_disconnect_eq:
  "distinct (map fst rooms) \<Longrightarrow>
   handle_disconnect sid rooms = (survivors sid rooms, notices sid rooms)"
  using fold_disconnect_room[of "[]" rooms sid "[]"] by (simp add: handle_disconnect_def)

subsection \<open>Requests that are turned away\<close>

text \<open>
  Claim C9. A \<open>join_room\<close> request whose \<open>code\<close> is missing or empty, or whose \<open>type\<close> is
  missing or empty, produces one \<open>error\<close> reply to the requester and nothing else, and
  leaves the registry as it was.
\<close>

theorem on_join_missing_field:
  "get d ''code'' = None \<or> get d ''code'' = Some [] \<or>
   get d ''type'' = None \<or> get d ''type'' = Some [] \<Longrightarrow>
   on_join sid d rooms =
     (rooms, [Emit ''error'' (Dict [(''message'', JStr ''Invalid room code or device type'')])
                (To_sid sid)])"
  by (rule on_join_reject) (auto simp: truthy_iff)

theorem on_join_missing_field_witness:
  "on_join ''s1'' [(''type'', Some ''sender'')]
     [(''R1'', \<lparr>senders = [''s0''], receivers = []\<rparr>)] =
     ([(''R1'', \<lparr>senders = [''s0''], receivers = []\<rparr>)],
      [Emit ''error'' (Dict [(''message'', JStr ''Invalid room code or device type'')])
         (To_sid ''s1'')])"
  using on_join_missing_field [of "[(''type'', Some ''sender'')]" "''s1''"
      "[(''R1'', \<lparr>senders = [''s0''], receivers = []\<rparr>)]"]
  by (simp add: get_def)

subsection \<open>Relaying\<close>

text \<open>
  Claim C4. \<open>send_text\<close>: when \<open>code\<close> or \<open>text\<close> is missing or empty, nothing is emitted,
  no error either. When both are non-empty and the room is in the registry with at least
  one receiver, the payload received is emitted unchanged as \<open>receive_text\<close> to the group
  \<open>{code}_recv\<close>, and nothing else. Otherwise (no such room, or no receiver in it) the one
  thing emitted is the error \<open>No receivers in room\<close>, to the sending connection. The
  registry is never changed.
\<close>

theorem handle_text_cases:
  "(get d ''code'' = None \<or> get d ''code'' = Some [] \<or>
    get d ''text'' = None \<or> get d ''text'' = Some [] \<longrightarrow>
      handle_text sid d rooms = (rooms, []))
 \<and> (\<forall>rc t. get d ''code'' = Some rc \<and> rc \<noteq> [] \<and> get d ''text'' = Some t \<and> t \<noteq> [] \<longrightarrow>
      handle_text sid d rooms =
        (if \<exists>r. map_of rooms rc = Some r \<and> receivers r \<noteq> []
         then (rooms, [Emit ''receive_text'' (Data d) (To_group (rc @ ''_recv'') None)])
         else (rooms, [Emit ''error'' (Dict [(''message'', JStr ''No receivers in room'')])
                         (To_sid sid)])))"
proof -
  have "handle_text sid d rooms =
          (if truthy (get d ''code'') \<and> truthy (get d ''text'')
           then (case get d ''code'' of
                   Some rc \<Rightarrow>
                     if has_receivers rooms rc
                     then (rooms, [Emit ''receive_text'' (Data d)
                                     (To_group (rc @ ''_recv'') None)])
                     else (rooms, [Emit ''error''
                                     (Dict [(''message'', JStr ''No receivers in room'')])
                                     (To_sid sid)])
                 | None \<Rightarrow> (rooms, []))
           else (rooms, []))"
    by (simp add: handle_text_def Let_def truthy_get_default)
  then show ?thesis
    by (auto simp: has_receivers_def split: option.splits)
qed

theorem handle_text_cases_witness:
  "handle_text ''s1'' [(''code'', Some ''R1''), (''text'', Some '''')]
     [(''R1'', \<lparr>senders = [''s1''], receivers = [''s2'']\<rparr>)] =
     ([(''R1'', \<lparr>senders = [''s1''], receivers = [''s2'']\<rparr>)], [])
 \<and> handle_text ''s1'' [(''code'', Some ''R1''), (''text'', Some ''hi''), (''n'', Some ''1'')]
     [(''R1'', \<lparr>senders = [''s1''], receivers = [''s2'']\<rparr>)] =
     ([(''R1'', \<lparr>senders = [''s1''], receivers = [''s2'']\<rparr>)],
      [Emit ''receive_text''
         (Data [(''code'', Some ''R1''), (''text'', Some ''hi''), (''n'', Some ''1'')])
         (To_group ''R1_recv'' None)])
 \<and> handle_text ''s1'' [(''code'', Some ''R1''), (''text'', Some ''hi'')]
     [(''R1'', \<lparr>senders = [''s1''], receivers = []\<rparr>)] =
     ([(''R1'', \<lparr>senders = [''s1''], receivers = []\<rparr>)],
      [Emit ''error'' (Dict [(''message'', JStr ''No receivers in room'')]) (To_sid ''s1'')])"
  using
    handle_text_cases [of "[(''code'', Some ''R1''), (''text'', Some '''')]" "''s1''"
      "[(''R1'', \<lparr>senders = [''s1''], receivers = [''s2'']\<rparr>)]"]
    handle_text_cases [of "[(''code'', Some ''R1''), (''text'', Some ''hi''), (''n'', Some ''1'')]"
      "''s1''" "[(''R1'', \<lparr>senders = [''s1''], receivers = [''s2'']\<rparr>)]"]
    handle_text_cases [of "[(''code'', Some ''R1''), (''text'', Some ''hi'')]" "''s1''"
      "[(''R1'', \<lparr>senders = [''s1''], receivers = []\<rparr>)]"]
  by (simp add: get_def)

text \<open>
  Claim C7. \<open>send_live_control\<close>: when \<open>code\<close> or \<open>control\<close> is missing or empty, the one
  thing emitted is the error \<open>Invalid live control payload\<close>, to the sending connection.
  When both are present and the room is in the registry with at least one receiver, the
  payload received is emitted as \<open>receive_live_control\<close> to the group \<open>{code}_recv\<close>.
  Otherwise the error \<open>No receivers in room\<close> goes to the sender. The registry is never
  changed.
\<close>

theorem handle_live_control_cases:
  "(get d ''code'' = None \<or> get d ''code'' = Some [] \<or>
    get d ''control'' = None \<or> get d ''control'' = Some [] \<longrightarrow>
      handle_live_control sid d rooms =
        (rooms, [Emit ''error'' (Dict [(''message'', JStr ''Invalid live control payload'')])
                   (To_sid sid)]))
 \<and> (\<forall>rc c. get d ''code'' = Some rc \<and> rc \<noteq> [] \<and> get d ''control'' = Some c \<and> c \<noteq> [] \<longrightarrow>
      handle_live_control sid d rooms =
        (if \<exists>r. map_of rooms rc = Some r \<and> receivers r \<noteq> []
         then (rooms, [Emit ''receive_live_control'' (Data d)
                         (To_group (rc @ ''_recv'') None)])
         else (rooms, [Emit ''error'' (Dict [(''message'', JStr ''No receivers in room'')])
                         (To_sid sid)])))"
  by (auto simp: handle_live_control_def truthy_iff has_receivers_def Let_def
           split: option.splits)

theorem handle_live_control_cases_witness:
  "handle_live_control ''s1'' [(''code'', Some ''R1'')]
     [(''R1'', \<lparr>senders = [''s1''], receivers = [''s2'']\<rparr>)] =
     ([(''R1'', \<lparr>senders = [''s1''], receivers = [''s2'']\<rparr>)],
      [Emit ''error'' (Dict [(''message'', JStr ''Invalid live control payload'')])
         (To_sid ''s1'')])
 \<and> handle_live_control ''s1'' [(''code'', Some ''R1''), (''control'', Some ''clear'')]
     [(''R1'', \<lparr>senders = [''s1''], receivers = [''s2'']\<rparr>)] =
     ([(''R1'', \<lparr>senders = [''s1''], receivers = [''s2'']\<rparr>)],
      [Emit ''receive_live_control''
         (Data [(''code'', Some ''R1''), (''control'', Some ''clear'')])
         (To_group ''R1_recv'' None)])
 \<and> handle_live_control ''s1'' [(''code'', Some ''R2''), (''control'', Some ''clear'')]
     [(''R1'', \<lparr>senders = [''s1''], receivers = [''s2'']\<rparr>)] =
     ([(''R1'', \<lparr>senders = [''s1''], receivers = [''s2'']\<rparr>)],
      [Emit ''error'' (Dict [(''message'', JStr ''No receivers in room'')]) (To_sid ''s1'')])"
  using
    handle_live_control_cases [of "[(''code'', Some ''R1'')]" "''s1''"
      "[(''R1'', \<lparr>senders = [''s1''], receivers = [''s2'']\<rparr>)]"]
    handle_live_control_cases [of "[(''code'', Some ''R1''), (''control'', Some ''clear'')]"
      "''s1''" "[(''R1'', \<lparr>senders = [''s1''], receivers = [''s2'']\<rparr>)]"]
    handle_live_control_cases [of "[(''code'', Some ''R2''), (''control'', Some ''clear'')]"
      "''s1''" "[(''R1'', \<lparr>senders = [''s1''], receivers = [''s2'']\<rparr>)]"]
  by (simp add: get_def)

subsection \<open>Joining\<close>

lemma update_fresh:
  "map_of al k = None \<Longrightarrow> AList.update k v al = al @ [(k, v)]"
  by (induction al) (auto split: if_splits)

text \<open>
  Claim C10. A \<open>join_room\<close> request with a non-empty \<open>code\<close> and a non-empty \<open>type\<close> that
  is neither \<open>sender\<close> nor \<open>receiver\<close> emits no error; the room is created, with two empty
  lists, when it was absent, and the registry is otherwise as it was; the connection is
  added to no list and subscribed to no group; and the requester is answered
  \<open>room_joined\<close> with the type it gave and with \<open>room_active\<close>, \<open>has_sender\<close> and
  \<open>has_receiver\<close> as the unchanged lists of the room make them. (When that room is
  active, the \<open>room_status\<close> broadcast to the room follows, as after any join.)
\<close>

theorem on_join_unknown_type:
  assumes "get d ''code'' = Some rc" "rc \<noteq> []" "get d ''type'' = Some dt" "dt \<noteq> []"
    and "dt \<noteq> ''sender''" "dt \<noteq> ''receiver''"
  shows "on_join sid d rooms =
     ((case map_of rooms rc of
         None \<Rightarrow> rooms @ [(rc, \<lparr>senders = [], receivers = []\<rparr>)]
       | Some r \<Rightarrow> rooms),
      [Emit ''room_joined''
         (Dict [(''message'', JStr (dt @ '' joined'')),
                (''type'', JStr dt),
                (''room_active'',
                   JBool (\<exists>r. map_of rooms rc = Some r \<and> senders r \<noteq> [] \<and> receivers r \<noteq> [])),
                (''has_sender'', JBool (\<exists>r. map_of rooms rc = Some r \<and> senders r \<noteq> [])),
                (''has_receiver'', JBool (\<exists>r. map_of rooms rc = Some r \<and> receivers r \<noteq> []))])
         (To_sid sid)]
      @ (if \<exists>r. map_of rooms rc = Some r \<and> senders r \<noteq> [] \<and> receivers r \<noteq> []
         then [Emit ''room_status''
                 (Dict [(''status'', JStr ''active''),
                        (''message'', JStr ''Both sender and receiver connected'')])
                 (To_group rc (Some sid))]
         else []))"
proof (cases "map_of rooms rc")
  case None
  then have "AList.update rc no_room rooms = rooms @ [(rc, no_room)]"
    by (rule update_fresh)
  with None assms show ?thesis
    by (simp add: on_join_accept joined_def no_room_def)
next
  case (Some r)
  then have "AList.update rc r rooms = rooms" by (rule update_triv)
  with Some assms show ?thesis
    by (simp add: on_join_accept joined_def Let_def)
qed

theorem on_join_unknown_type_witness:
  "on_join ''s3'' [(''code'', Some ''R2''), (''type'', Some ''viewer'')]
     [(''R1'', \<lparr>senders = [''s1''], receivers = [''s2'']\<rparr>)] =
     ([(''R1'', \<lparr>senders = [''s1''], receivers = [''s2'']\<rparr>),
       (''R2'', \<lparr>senders = [], receivers = []\<rparr>)],
      [Emit ''room_joined''
         (Dict [(''message'', JStr ''viewer joined''), (''type'', JStr ''viewer''),
                (''room_active'', JBool False), (''has_sender'', JBool False),
                (''has_receiver'', JBool False)])
         (To_sid ''s3'')])"
  using on_join_unknown_type [of "[(''code'', Some ''R2''), (''type'', Some ''viewer'')]"
      "''R2''" "''viewer''" "''s3''" "[(''R1'', \<lparr>senders = [''s1''], receivers = [''s2'']\<rparr>)]"]
  by (simp add: get_def)

text \<open>
  Claim C2. The claim: a \<open>join_room\<close> request whose role is not \<open>sender\<close> or \<open>receiver\<close>
  is answered with the error \<open>Invalid room code or device type\<close> and has no other
  effect. The guard of \<open>on_join\<close> tests only that the type is not empty. Here is the
  handler on the empty registry, for the connection \<open>s1\<close>, the code \<open>R1\<close> and the type
  \<open>viewer\<close>: no error is emitted, the room \<open>R1\<close> is created, and the answer is
  \<open>room_joined\<close>.
\<close>

theorem on_join_viewer:
  "on_join ''s1'' [(''code'', Some ''R1''), (''type'', Some ''viewer'')] [] =
     ([(''R1'', \<lparr>senders = [], receivers = []\<rparr>)],
      [Emit ''room_joined''
         (Dict [(''message'', JStr ''viewer joined''), (''type'', JStr ''viewer''),
                (''room_active'', JBool False), (''has_sender'', JBool False),
                (''has_receiver'', JBool False)])
         (To_sid ''s1'')])"
  by (simp add: on_join_def get_def joined_def no_room_def)

theorem on_join_viewer_witness:
  "snd (on_join ''s1'' [(''code'', Some ''R1''), (''type'', Some ''viewer'')] []) \<noteq>
     [Emit ''error'' (Dict [(''message'', JStr ''Invalid room code or device type'')])
        (To_sid ''s1'')]
 \<and> fst (on_join ''s1'' [(''code'', Some ''R1''), (''type'', Some ''viewer'')] []) \<noteq> []"
  using on_join_viewer by simp

text \<open>
  The room of \<open>room_code\<close> after an accepted join, and what the join emits, in terms of it.
\<close>

lemma joined_room:
  "\<exists>r. map_of (fst (joined sid rc dt rooms)) rc = Some r"
  by (simp add: joined_def Let_def update_conv')

lemma joined_out:
  assumes "map_of (fst (joined sid rc dt rooms)) rc = Some r"
  shows "snd (joined sid rc dt rooms) =
     (if dt = ''sender'' then [Join_room sid rc]
      else if dt = ''receiver'' then [Join_room sid rc, Join_room sid (rc @ ''_recv'')]
      else [])
     @ [Emit ''room_joined''
          (Dict [(''message'', JStr (dt @ '' joined'')),
                 (''type'', JStr dt),
                 (''room_active'', JBool (length (senders r) > 0 \<and> length (receivers r) > 0)),
                 (''has_sender'', JBool (length (senders r) > 0)),
                 (''has_receiver'', JBool (length (receivers r) > 0))])
          (To_sid sid)]
     @ (if length (senders r) > 0 \<and> length (receivers r) > 0
        then [Emit ''room_status''
                (Dict [(''status'', JStr ''active''),
                       (''message'', JStr ''Both sender and receiver connected'')])
                (To_group rc (Some sid))]
        else [])"
proof -
  define room0 where "room0 = (case map_of rooms rc of None \<Rightarrow> no_room | Some r \<Rightarrow> r)"
  define room1 where "room1 =
            (if dt = ''sender''
             then (if sid \<notin> set (senders room0)
                   then room0\<lparr>senders := senders room0 @ [sid]\<rparr> else room0)
             else if dt = ''receiver''
             then (if sid \<notin> set (receivers room0)
                   then room0\<lparr>receivers := receivers room0 @ [sid]\<rparr> else room0)
             else room0)"
  have "fst (joined sid rc dt rooms) = AList.update rc room1 rooms"
    by (simp add: joined_def Let_def room0_def room1_def)
  with assms have r: "r = room1" by (simp add: update_conv')
  show ?thesis
    unfolding r by (auto simp add: joined_def Let_def room0_def room1_def)
qed

lemma joined_sender_in:
  "map_of (fst (joined sid rc ''sender'' rooms)) rc = Some r \<Longrightarrow> sid \<in> set (senders r)"
  by (auto simp: joined_def Let_def update_conv' split: if_splits)

lemma joined_receiver_keeps:
  "map_of rooms rc = Some r0 \<Longrightarrow>
   map_of (fst (joined sid rc ''receiver'' rooms)) rc = Some r \<Longrightarrow>
   sid \<in> set (receivers r) \<and> senders r = senders r0"
  by (auto simp: joined_def Let_def update_conv' split: if_splits)

text \<open>
  Claim C6. Every accepted \<open>join_room\<close> (non-empty \<open>code\<close> and \<open>type\<close>) answers the joining
  connection with one \<open>room_joined\<close> whose \<open>has_sender\<close> is \<open>len(senders) > 0\<close>,
  \<open>has_receiver\<close> is \<open>len(receivers) > 0\<close> and \<open>room_active\<close> their conjunction, all read
  off the room as the join leaves it; before the answer come only the subscriptions of
  the joining connection, and after it comes the \<open>room_status\<close> event with status
  \<open>active\<close>, sent to the group of the room code with the joining connection skipped,
  exactly when \<open>room_active\<close> is true (whether or not the room was active before this
  join). So when a connection joins a code as \<open>sender\<close> and a
  connection then joins that code as \<open>receiver\<close>, the second answer has \<open>room_active\<close>
  true and the broadcast follows it.
\<close>

theorem on_join_reply:
  "(\<forall>rc dt. get d ''code'' = Some rc \<and> rc \<noteq> [] \<and> get d ''type'' = Some dt \<and> dt \<noteq> [] \<longrightarrow>
      (\<exists>r subs.
         map_of (fst (on_join sid d rooms)) rc = Some r \<and>
         (\<forall>e \<in> set subs. \<exists>g. e = Join_room sid g) \<and>
         snd (on_join sid d rooms) =
           subs
           @ [Emit ''room_joined''
                (Dict [(''message'', JStr (dt @ '' joined'')),
                       (''type'', JStr dt),
                       (''room_active'',
                          JBool (length (senders r) > 0 \<and> length (receivers r) > 0)),
                       (''has_sender'', JBool (length (senders r) > 0)),
                       (''has_receiver'', JBool (length (receivers r) > 0))])
                (To_sid sid)]
           @ (if length (senders r) > 0 \<and> length (receivers r) > 0
              then [Emit ''room_status''
                      (Dict [(''status'', JStr ''active''),
                             (''message'', JStr ''Both sender and receiver connected'')])
                      (To_group rc (Some sid))]
              else [])))
 \<and> (\<forall>rc d' sid'. get d ''code'' = Some rc \<and> rc \<noteq> [] \<and> get d ''type'' = Some ''sender'' \<and>
        get d' ''code'' = Some rc \<and> get d' ''type'' = Some ''receiver'' \<longrightarrow>
      snd (on_join sid' d' (fst (on_join sid d rooms))) =
        [Join_room sid' rc, Join_room sid' (rc @ ''_recv''),
         Emit ''room_joined''
           (Dict [(''message'', JStr ''receiver joined''),
                  (''type'', JStr ''receiver''),
                  (''room_active'', JBool True),
                  (''has_sender'', JBool True),
                  (''has_receiver'', JBool True)])
           (To_sid sid'),
         Emit ''room_status''
           (Dict [(''status'', JStr ''active''),
                  (''message'', JStr ''Both sender and receiver connected'')])
           (To_group rc (Some sid'))])"
proof (intro conjI allI impI)
  fix rc dt
  assume a: "get d ''code'' = Some rc \<and> rc \<noteq> [] \<and> get d ''type'' = Some dt \<and> dt \<noteq> []"
  then have j: "on_join sid d rooms = joined sid rc dt rooms"
    by (simp add: on_join_accept)
  obtain r where r: "map_of (fst (joined sid rc dt rooms)) rc = Some r"
    using joined_room by blast
  let ?subs = "if dt = ''sender'' then [Join_room sid rc]
      else if dt = ''receiver'' then [Join_room sid rc, Join_room sid (rc @ ''_recv'')]
      else []"
  have "\<forall>e \<in> set ?subs. \<exists>g. e = Join_room sid g" by auto
  with r joined_out[OF r] show "\<exists>r subs.
         map_of (fst (on_join sid d rooms)) rc = Some r \<and>
         (\<forall>e \<in> set subs. \<exists>g. e = Join_room sid g) \<and>
         snd (on_join sid d rooms) =
           subs
           @ [Emit ''room_joined''
                (Dict [(''message'', JStr (dt @ '' joined'')),
                       (''type'', JStr dt),
                       (''room_active'',
                          JBool (length (senders r) > 0 \<and> length (receivers r) > 0)),
                       (''has_sender'', JBool (length (senders r) > 0)),
                       (''has_receiver'', JBool (length (receivers r) > 0))])
                (To_sid sid)]
           @ (if length (senders r) > 0 \<and> length (receivers r) > 0
              then [Emit ''room_status''
                      (Dict [(''status'', JStr ''active''),
                             (''message'', JStr ''Both sender and receiver connected'')])
                      (To_group rc (Some sid))]
              else [])"
    unfolding j by blast
next
  fix rc d' sid'
  assume a: "get d ''code'' = Some rc \<and> rc \<noteq> [] \<and> get d ''type'' = Some ''sender'' \<and>
        get d' ''code'' = Some rc \<and> get d' ''type'' = Some ''receiver''"
  then have j1: "on_join sid d rooms = joined sid rc ''sender'' rooms"
    and j2: "\<And>rs. on_join sid' d' rs = joined sid' rc ''receiver'' rs"
    by (simp_all add: on_join_accept)
  obtain r1 where r1: "map_of (fst (joined sid rc ''sender'' rooms)) rc = Some r1"
    using joined_room by blast
  obtain r2 where r2:
    "map_of (fst (joined sid' rc ''receiver'' (fst (joined sid rc ''sender'' rooms)))) rc = Some r2"
    using joined_room by blast
  from joined_sender_in[OF r1] joined_receiver_keeps[OF r1 r2]
  have "length (senders r2) > 0" "length (receivers r2) > 0" by auto
  with joined_out[OF r2] show "snd (on_join sid' d' (fst (on_join sid d rooms))) =
        [Join_room sid' rc, Join_room sid' (rc @ ''_recv''),
         Emit ''room_joined''
           (Dict [(''message'', JStr ''receiver joined''),
                  (''type'', JStr ''receiver''),
                  (''room_active'', JBool True),
                  (''has_sender'', JBool True),
                  (''has_receiver'', JBool True)])
           (To_sid sid'),
         Emit ''room_status''
           (Dict [(''status'', JStr ''active''),
                  (''message'', JStr ''Both sender and receiver connected'')])
           (To_group rc (Some sid'))]"
    unfolding j1 j2 by simp
qed

theorem on_join_reply_witness:
  "(\<exists>r subs.
      map_of (fst (on_join ''s1'' [(''code'', Some ''R1''), (''type'', Some ''sender'')] []))
        ''R1'' = Some r \<and>
      (\<forall>e \<in> set subs. \<exists>g. e = Join_room ''s1'' g) \<and>
      snd (on_join ''s1'' [(''code'', Some ''R1''), (''type'', Some ''sender'')] []) =
        subs
        @ [Emit ''room_joined''
             (Dict [(''message'', JStr ''sender joined''),
                    (''type'', JStr ''sender''),
                    (''room_active'',
                       JBool (length (senders r) > 0 \<and> length (receivers r) > 0)),
                    (''has_sender'', JBool (length (senders r) > 0)),
                    (''has_receiver'', JBool (length (receivers r) > 0))])
             (To_sid ''s1'')]
        @ (if length (senders r) > 0 \<and> length (receivers r) > 0
           then [Emit ''room_status''
                   (Dict [(''status'', JStr ''active''),
                          (''message'', JStr ''Both sender and receiver connected'')])
                   (To_group ''R1'' (Some ''s1''))]
           else []))
 \<and> snd (on_join ''s2'' [(''code'', Some ''R1''), (''type'', Some ''receiver'')]
       (fst (on_join ''s1'' [(''code'', Some ''R1''), (''type'', Some ''sender'')] []))) =
     [Join_room ''s2'' ''R1'', Join_room ''s2'' ''R1_recv'',
      Emit ''room_joined''
        (Dict [(''message'', JStr ''receiver joined''),
               (''type'', JStr ''receiver''),
               (''room_active'', JBool True),
               (''has_sender'', JBool True),
               (''has_receiver'', JBool True)])
        (To_sid ''s2''),
      Emit ''room_status''
        (Dict [(''status'', JStr ''active''),
               (''message'', JStr ''Both sender and receiver connected'')])
        (To_group ''R1'' (Some ''s2''))]"
  using
    on_join_reply [of "[(''code'', Some ''R1''), (''type'', Some ''sender'')]" "''s1''" "[]",
      THEN conjunct1, rule_format, of "''R1''" "''sender''"]
    on_join_reply [of "[(''code'', Some ''R1''), (''type'', Some ''sender'')]" "''s1''" "[]",
      THEN conjunct2, rule_format, of "''R1''"
      "[(''code'', Some ''R1''), (''type'', Some ''receiver'')]" "''s2''"]
  by (simp add: get_def)

subsection \<open>What every reachable registry satisfies\<close>

lemma run_snoc: "run (evs @ [e]) rooms = fst (handle e (run evs rooms))"
  by (simp add: run_def)

lemma run_Nil: "run [] rooms = rooms"
  by (simp add: run_def)

lemma set_update_subset: "set (AList.update k v al) \<subseteq> insert (k, v) (set al)"
  by (induction al) auto

lemma set_survivors:
  "set (survivors sid rooms) =
     {(rc, leave sid r) | rc r. (rc, r) \<in> set rooms \<and> \<not> deserted (leave sid r)}"
  by (auto simp: survivors_def)

lemma keys_survivors:
  "map fst (survivors sid rooms) =
     map fst (filter (\<lambda>(rc, r). \<not> deserted (leave sid r)) rooms)"
  by (induction rooms) (auto simp: survivors_def)

lemma distinct_count_list: "distinct xs \<Longrightarrow> count_list xs x \<le> Suc 0"
  by (induction xs) auto

lemma tidy_handle_disconnect:
  assumes "tidy rooms"
  shows "tidy (fst (handle_disconnect sid rooms))"
proof -
  from assms have d: "distinct (map fst rooms)" by (simp add: tidy_def)
  have "tidy (survivors sid rooms)"
    unfolding tidy_def
  proof (intro conjI ballI)
    show "distinct (map fst (survivors sid rooms))" using d by (simp add: keys_survivors distinct_map_filter)
  next
    fix x assume "x \<in> set (survivors sid rooms)"
    then obtain rc r where "x = (rc, leave sid r)" "(rc, r) \<in> set rooms"
      by (auto simp: set_survivors)
    with assms show "case x of (rc, r) \<Rightarrow> distinct (senders r) \<and> distinct (receivers r)"
      by (auto simp: tidy_def leave_def)
  qed
  with d show ?thesis by (simp add: handle_disconnect_eq)
qed

lemma joined_entry:
  assumes "(rc', r') \<in> set (fst (joined sid rc dt rooms))"
  shows "(rc', r') \<in> set rooms \<or>
         (rc' = rc \<and>
          (\<exists>r0. (map_of rooms rc = None \<and> r0 = no_room \<or> (rc, r0) \<in> set rooms) \<and>
             (r' = r0 \<or>
              dt = ''sender'' \<and> sid \<notin> set (senders r0) \<and>
                r' = r0\<lparr>senders := senders r0 @ [sid]\<rparr> \<or>
              dt = ''receiver'' \<and> sid \<notin> set (receivers r0) \<and>
                r' = r0\<lparr>receivers := receivers r0 @ [sid]\<rparr>)))"
proof -
  define room0 where "room0 = (case map_of rooms rc of None \<Rightarrow> no_room | Some r \<Rightarrow> r)"
  define room1 where "room1 =
            (if dt = ''sender''
             then (if sid \<notin> set (senders room0)
                   then room0\<lparr>senders := senders room0 @ [sid]\<rparr> else room0)
             else if dt = ''receiver''
             then (if sid \<notin> set (receivers room0)
                   then room0\<lparr>receivers := receivers room0 @ [sid]\<rparr> else room0)
             else room0)"
  have "fst (joined sid rc dt rooms) = AList.update rc room1 rooms"
    by (simp add: joined_def Let_def room0_def room1_def)
  with assms set_update_subset[of rc room1 rooms]
  have c: "(rc', r') \<in> set rooms \<or> (rc' = rc \<and> r' = room1)" by auto
  have r0: "map_of rooms rc = None \<and> room0 = no_room \<or> (rc, room0) \<in> set rooms"
    by (auto simp: room0_def split: option.splits dest: map_of_SomeD)
  have "room1 = room0 \<or>
        dt = ''sender'' \<and> sid \<notin> set (senders room0) \<and>
          room1 = room0\<lparr>senders := senders room0 @ [sid]\<rparr> \<or>
        dt = ''receiver'' \<and> sid \<notin> set (receivers room0) \<and>
          room1 = room0\<lparr>receivers := receivers room0 @ [sid]\<rparr>"
    by (auto simp: room1_def)
  with c r0 show ?thesis by blast
qed

lemma tidy_joined:
  assumes "tidy rooms"
  shows "tidy (fst (joined sid rc dt rooms))"
  unfolding tidy_def
proof (intro conjI ballI)
  obtain room1 where "fst (joined sid rc dt rooms) = AList.update rc room1 rooms"
    by (simp add: joined_def Let_def)
  then show "distinct (map fst (fst (joined sid rc dt rooms)))"
    using assms by (simp add: distinct_update tidy_def)
next
  fix x assume x: "x \<in> set (fst (joined sid rc dt rooms))"
  obtain rc' r' where xe: "x = (rc', r')" by (cases x)
  from joined_entry[OF x[unfolded xe]] assms
  have "distinct (senders r') \<and> distinct (receivers r')"
    by (auto simp: tidy_def no_room_def)
  then show "case x of (rc, r) \<Rightarrow> distinct (senders r) \<and> distinct (receivers r)"
    by (simp add: xe)
qed

lemma fst_on_join:
  "fst (on_join sid d rooms) = rooms \<or>
   (\<exists>rc dt. get d ''code'' = Some rc \<and> rc \<noteq> [] \<and> get d ''type'' = Some dt \<and> dt \<noteq> [] \<and>
      fst (on_join sid d rooms) = fst (joined sid rc dt rooms))"
  by (auto simp: on_join_def Let_def truthy_iff split: option.splits)

lemma fst_handle_text: "fst (handle_text sid d rooms) = rooms"
  by (simp add: handle_text_def Let_def split: option.splits)

lemma fst_handle_live_control: "fst (handle_live_control sid d rooms) = rooms"
  by (simp add: handle_live_control_def Let_def split: option.splits)

lemma tidy_handle: "tidy rooms \<Longrightarrow> tidy (fst (handle e rooms))"
proof (cases e)
  case (Join sid d)
  assume "tidy rooms"
  with fst_on_join[of sid d rooms] show ?thesis
    by (auto simp: Join tidy_joined)
qed (simp_all add: tidy_handle_disconnect fst_handle_text fst_handle_live_control)

lemma tidy_run: "tidy (run evs [])"
proof (induction evs rule: rev_induct)
  case Nil
  show ?case by (simp add: run_Nil tidy_def)
next
  case (snoc e evs)
  then show ?case unfolding run_snoc by (rule tidy_handle)
qed

lemma joined_twice:
  "fst (joined sid rc dt (fst (joined sid rc dt rooms))) = fst (joined sid rc dt rooms)"
proof -
  define room0 where "room0 = (case map_of rooms rc of None \<Rightarrow> no_room | Some r \<Rightarrow> r)"
  define room1 where "room1 =
            (if dt = ''sender''
             then (if sid \<notin> set (senders room0)
                   then room0\<lparr>senders := senders room0 @ [sid]\<rparr> else room0)
             else if dt = ''receiver''
             then (if sid \<notin> set (receivers room0)
                   then room0\<lparr>receivers := receivers room0 @ [sid]\<rparr> else room0)
             else room0)"
  have 1: "fst (joined sid rc dt rooms) = AList.update rc room1 rooms"
    by (simp add: joined_def Let_def room0_def room1_def)
  have 2: "fst (joined sid rc dt (AList.update rc room1 rooms)) =
           AList.update rc room1 (AList.update rc room1 rooms)"
    by (auto simp add: joined_def Let_def update_conv' room1_def)
  show ?thesis unfolding 1 2 by simp
qed

text \<open>
  Claim C8. After any sequence of events from the empty registry (sequences of
  \<open>join_room\<close> requests among them), no list of a room holds a connection more than
  once; and a \<open>join_room\<close> request made twice in a row (same connection, same payload)
  leaves the registry as the first one left it.
\<close>

theorem join_idempotent:
  "(\<forall>(rc, r) \<in> set (run evs []).
      \<forall>s. count_list (senders r) s \<le> 1 \<and> count_list (receivers r) s \<le> 1)
 \<and> fst (on_join sid d (fst (on_join sid d rooms))) = fst (on_join sid d rooms)"
proof
  have "tidy (run evs [])" by (rule tidy_run)
  then show "\<forall>(rc, r) \<in> set (run evs []).
      \<forall>s. count_list (senders r) s \<le> 1 \<and> count_list (receivers r) s \<le> 1"
    by (auto simp: tidy_def distinct_count_list)
next
  show "fst (on_join sid d (fst (on_join sid d rooms))) = fst (on_join sid d rooms)"
  proof (cases "truthy (get d ''code'') \<and> truthy (get d ''type'')")
    case True
    then obtain rc dt where "get d ''code'' = Some rc" "rc \<noteq> []" "get d ''type'' = Some dt" "dt \<noteq> []"
      by (auto simp: truthy_iff)
    then have "\<And>rs. on_join sid d rs = joined sid rc dt rs" by (simp add: on_join_accept)
    then show ?thesis by (simp add: joined_twice)
  next
    case False
    then have "\<And>rs. fst (on_join sid d rs) = rs" by (auto simp: on_join_reject)
    then show ?thesis by simp
  qed
qed

theorem join_idempotent_witness:
  "run [Join ''s1'' [(''code'', Some ''R1''), (''type'', Some ''sender'')],
        Join ''s1'' [(''code'', Some ''R1''), (''type'', Some ''sender'')],
        Join ''s2'' [(''code'', Some ''R1''), (''type'', Some ''receiver'')],
        Join ''s2'' [(''code'', Some ''R1''), (''type'', Some ''receiver'')]] [] =
     [(''R1'', \<lparr>senders = [''s1''], receivers = [''s2'']\<rparr>)]
 \<and> count_list [''s1''] ''s1'' \<le> 1 \<and> count_list [''s2''] ''s2'' \<le> 1
 \<and> fst (on_join ''s1'' [(''code'', Some ''R1''), (''type'', Some ''sender'')]
       (fst (on_join ''s1'' [(''code'', Some ''R1''), (''type'', Some ''sender'')] []))) =
     fst (on_join ''s1'' [(''code'', Some ''R1''), (''type'', Some ''sender'')] [])"
  using join_idempotent [of
      "[Join ''s1'' [(''code'', Some ''R1''), (''type'', Some ''sender'')],
        Join ''s1'' [(''code'', Some ''R1''), (''type'', Some ''sender'')],
        Join ''s2'' [(''code'', Some ''R1''), (''type'', Some ''receiver'')],
        Join ''s2'' [(''code'', Some ''R1''), (''type'', Some ''receiver'')]]"
      "''s1''" "[(''code'', Some ''R1''), (''type'', Some ''sender'')]" "[]"]
  by (simp add: run_def on_join_def get_def joined_def no_room_def)

subsection \<open>Where a member of a room comes from\<close>

lemma joined_as_snoc:
  "joined_as s rc role (evs @ [e]) =
     (joined_as s rc role evs \<or>
      (case e of Join s' d \<Rightarrow> s' = s \<and> get d ''code'' = Some rc \<and> get d ''type'' = Some role
               | _ \<Rightarrow> False))"
  by (auto simp: joined_as_def)

lemma member_origin:
  "(rc, r) \<in> set (run evs []) \<Longrightarrow>
   (s \<in> set (senders r) \<longrightarrow> joined_as s rc ''sender'' evs) \<and>
   (s \<in> set (receivers r) \<longrightarrow> joined_as s rc ''receiver'' evs)"
proof (induction evs arbitrary: rc r rule: rev_induct)
  case Nil
  then show ?case by (simp add: run_Nil)
next
  case (snoc e evs)
  let ?rooms = "run evs []"
  from snoc.prems have mem: "(rc, r) \<in> set (fst (handle e ?rooms))"
    by (simp add: run_snoc)
  have old: "\<And>r0. (rc, r0) \<in> set ?rooms \<Longrightarrow>
      set (senders r) \<subseteq> set (senders r0) \<Longrightarrow> set (receivers r) \<subseteq> set (receivers r0) \<Longrightarrow>
      ?case"
    using snoc.IH by (auto simp: joined_as_snoc)
  show ?case
  proof (cases e)
    case (Connect x)
    with mem old[of r] show ?thesis by simp
  next
    case (Disconnect x)
    have "distinct (map fst ?rooms)" using tidy_run[of evs] by (simp add: tidy_def)
    with mem Disconnect have "(rc, r) \<in> set (survivors x ?rooms)"
      by (simp add: handle_disconnect_eq)
    then obtain r0 where "(rc, r0) \<in> set ?rooms" "r = leave x r0"
      by (auto simp: set_survivors)
    with old[of r0] show ?thesis
      by (simp add: leave_def set_remove1_subset)
  next
    case (Join x d)
    from fst_on_join[of x d ?rooms] show ?thesis
    proof
      assume "fst (on_join x d ?rooms) = ?rooms"
      with mem Join old[of r] show ?thesis by simp
    next
      assume "\<exists>c dt. get d ''code'' = Some c \<and> c \<noteq> [] \<and> get d ''type'' = Some dt \<and> dt \<noteq> [] \<and>
      fst (on_join x d ?rooms) = fst (joined x c dt ?rooms)"
      then obtain c dt where c: "get d ''code'' = Some c" "get d ''type'' = Some dt"
        and j: "fst (on_join x d ?rooms) = fst (joined x c dt ?rooms)" by blast
      from mem Join j have "(rc, r) \<in> set (fst (joined x c dt ?rooms))" by simp
      from joined_entry[OF this] consider
          "(rc, r) \<in> set ?rooms"
        | "rc = c" "r = no_room"
        | r0 where "rc = c" "(c, r0) \<in> set ?rooms" "r = r0"
        | r0 where "rc = c" "map_of ?rooms c = None \<and> r0 = no_room \<or> (c, r0) \<in> set ?rooms"
            "dt = ''sender''" "r = r0\<lparr>senders := senders r0 @ [x]\<rparr>"
        | r0 where "rc = c" "map_of ?rooms c = None \<and> r0 = no_room \<or> (c, r0) \<in> set ?rooms"
            "dt = ''receiver''" "r = r0\<lparr>receivers := receivers r0 @ [x]\<rparr>"
        by blast
      then show ?thesis
      proof cases
        case 1
        with old[of r] show ?thesis by simp
      next
        case 2
        then show ?thesis by (simp add: no_room_def)
      next
        case 3
        with old[of r] show ?thesis by simp
      next
        case 4
        with snoc.IH[of c r0] c Join show ?thesis
          by (auto simp: joined_as_snoc no_room_def)
      next
        case 5
        with snoc.IH[of c r0] c Join show ?thesis
          by (auto simp: joined_as_snoc no_room_def)
      qed
    qed
  next
    case (Send_text x d)
    with mem old[of r] show ?thesis by (simp add: fst_handle_text)
  next
    case (Send_live_control x d)
    with mem old[of r] show ?thesis by (simp add: fst_handle_live_control)
  qed
qed

text \<open>
  Claim C3, as stated: each connection is in at most one of the two lists of a room, and
  a connection that joins a code as \<open>sender\<close> and later as \<open>receiver\<close> is not left in
  both. \<open>on_join\<close> never takes a connection out of a list: here the connection \<open>s1\<close>
  joins \<open>R1\<close> as \<open>sender\<close> and then as \<open>receiver\<close>, and is in both lists.
\<close>

theorem both_roles_counterexample:
  "run [Join ''s1'' [(''code'', Some ''R1''), (''type'', Some ''sender'')],
        Join ''s1'' [(''code'', Some ''R1''), (''type'', Some ''receiver'')]] [] =
     [(''R1'', \<lparr>senders = [''s1''], receivers = [''s1'']\<rparr>)]"
  by (simp add: run_def on_join_def get_def joined_def no_room_def)

text \<open>
  Claim C3, amended. After any sequence of events from the empty registry, a connection
  is in at most one of the two lists of a room unless it has asked to join that room
  code both as \<open>sender\<close> and as \<open>receiver\<close>.
\<close>

theorem one_role_unless_joined_both:
  "\<forall>(rc, r) \<in> set (run evs []). \<forall>s.
      \<not> (joined_as s rc ''sender'' evs \<and> joined_as s rc ''receiver'' evs) \<longrightarrow>
      \<not> (s \<in> set (senders r) \<and> s \<in> set (receivers r))"
  using member_origin[of _ _ evs] by blast

theorem one_role_unless_joined_both_witness:
  "run [Join ''s1'' [(''code'', Some ''R1''), (''type'', Some ''sender'')],
        Join ''s2'' [(''code'', Some ''R1''), (''type'', Some ''receiver'')],
        Join ''s1'' [(''code'', Some ''R2''), (''type'', Some ''receiver'')]] [] =
     [(''R1'', \<lparr>senders = [''s1''], receivers = [''s2'']\<rparr>),
      (''R2'', \<lparr>senders = [], receivers = [''s1'']\<rparr>)]
 \<and> \<not> (joined_as ''s1'' ''R1'' ''sender''
         [Join ''s1'' [(''code'', Some ''R1''), (''type'', Some ''sender'')],
          Join ''s2'' [(''code'', Some ''R1''), (''type'', Some ''receiver'')],
          Join ''s1'' [(''code'', Some ''R2''), (''type'', Some ''receiver'')]]
      \<and> joined_as ''s1'' ''R1'' ''receiver''
         [Join ''s1'' [(''code'', Some ''R1''), (''type'', Some ''sender'')],
          Join ''s2'' [(''code'', Some ''R1''), (''type'', Some ''receiver'')],
          Join ''s1'' [(''code'', Some ''R2''), (''type'', Some ''receiver'')]])
 \<and> \<not> (''s1'' \<in> set [''s1''] \<and> ''s1'' \<in> set [''s2''])"
  using
    one_role_unless_joined_both [of
      "[Join ''s1'' [(''code'', Some ''R1''), (''type'', Some ''sender'')],
        Join ''s2'' [(''code'', Some ''R1''), (''type'', Some ''receiver'')],
        Join ''s1'' [(''code'', Some ''R2''), (''type'', Some ''receiver'')]]"]
  by (simp add: run_def on_join_def get_def joined_def no_room_def joined_as_def)

subsection \<open>Disconnecting\<close>

lemma leave_removeAll:
  "distinct (senders r) \<Longrightarrow> distinct (receivers r) \<Longrightarrow>
   leave sid r = \<lparr>senders = removeAll sid (senders r), receivers = removeAll sid (receivers r)\<rparr>"
  by (simp add: leave_def distinct_remove1_removeAll)

lemma survivors_tidy:
  assumes "tidy rooms"
  shows "survivors sid rooms =
     filter (\<lambda>(rc, r). senders r \<noteq> [] \<or> receivers r \<noteq> [])
       (map (\<lambda>(rc, r). (rc, \<lparr>senders = removeAll sid (senders r),
                                receivers = removeAll sid (receivers r)\<rparr>)) rooms)"
proof -
  have m: "map (\<lambda>(rc, r). (rc, leave sid r)) rooms =
        map (\<lambda>(rc, r). (rc, \<lparr>senders = removeAll sid (senders r),
                                receivers = removeAll sid (receivers r)\<rparr>)) rooms"
    using assms by (auto simp: tidy_def leave_removeAll)
  have p: "(\<lambda>(rc, r). \<not> deserted r) =
        (\<lambda>(rc :: string, r). senders r \<noteq> [] \<or> receivers r \<noteq> [])"
    by (auto simp: deserted_def)
  show ?thesis unfolding survivors_def m p ..
qed

lemma handle_disconnect_absent:
  assumes "distinct (map fst rooms)"
    and "\<forall>(rc, r) \<in> set rooms. sid \<notin> set (senders r) \<and> sid \<notin> set (receivers r) \<and>
           (senders r \<noteq> [] \<or> receivers r \<noteq> [])"
  shows "handle_disconnect sid rooms = (rooms, [])"
proof -
  from assms(2) have l: "\<forall>x \<in> set rooms. (case x of (rc, r) \<Rightarrow> (rc, leave sid r)) = x"
    by (auto simp: leave_def remove1_idem)
  then have "map (\<lambda>(rc, r). (rc, leave sid r)) rooms = rooms"
    by (simp add: map_idI)
  moreover from assms(2) have "\<forall>x \<in> set rooms. case x of (rc, r) \<Rightarrow> \<not> deserted r"
    by (auto simp: deserted_def)
  ultimately have "survivors sid rooms = rooms"
    by (simp add: survivors_def filter_id_conv)
  moreover from assms(2) have "notices sid rooms = []"
    by (auto simp: notices_def filter_empty_conv)
  ultimately show ?thesis using assms(1) by (simp add: handle_disconnect_eq)
qed

text \<open>
  Claim C5, as stated, ends: a disconnect of a connection that is in no room mutates
  nothing. The loop of \<open>handle_disconnect\<close> deletes every room whose two lists are empty,
  whoever disconnects, and \<open>on_join\<close> can leave such a room (a device type other than
  \<open>sender\<close> and \<open>receiver\<close>). Here \<open>s1\<close> joins \<open>R1\<close> with the type \<open>viewer\<close>, which leaves
  \<open>R1\<close> with nobody in it, and the disconnect of \<open>s2\<close>, which is in no room, deletes
  \<open>R1\<close>.
\<close>

theorem disconnect_absent_counterexample:
  "run [Join ''s1'' [(''code'', Some ''R1''), (''type'', Some ''viewer'')]] [] =
     [(''R1'', \<lparr>senders = [], receivers = []\<rparr>)]
 \<and> handle_disconnect ''s2''
       (run [Join ''s1'' [(''code'', Some ''R1''), (''type'', Some ''viewer'')]] []) = ([], [])"
  by (simp add: run_def on_join_def get_def joined_def no_room_def handle_disconnect_def
      disconnect_room_def)

text \<open>
  Claim C5, amended. Let a connection disconnect in any registry reached from the empty
  one, and let \<open>rooms'\<close> be the registry and \<open>out\<close> the events that result.
  \<^item> Every room has lost the connection from both of its lists, the rooms whose two lists
    are then empty are gone, and nothing else has changed: order, other members and
    other rooms are as before.
  \<^item> \<open>out\<close> holds one \<open>room_status\<close> event with status \<open>sender_left\<close>, to the group
    \<open>{code}_recv\<close>, for every room that had the connection among its senders and whose
    receivers list was not empty, and nothing else. (The test is made before the
    connection is removed from the receivers, so the event is sent in particular
    whenever the room still has receivers after the removal.)
  \<^item> No room of \<open>rooms'\<close> holds the connection, and none has two empty lists.
  \<^item> When the connection was in no room and no room had two empty lists, nothing is
    changed and nothing emitted. In particular, disconnecting the same connection once
    more changes nothing and emits nothing.
\<close>

theorem handle_disconnect_run:
  assumes "handle_disconnect sid (run evs []) = (rooms', out)"
  shows
   "rooms' =
      filter (\<lambda>(rc, r). senders r \<noteq> [] \<or> receivers r \<noteq> [])
        (map (\<lambda>(rc, r). (rc, \<lparr>senders = removeAll sid (senders r),
                                 receivers = removeAll sid (receivers r)\<rparr>)) (run evs []))
  \<and> out =
      map (\<lambda>(rc, r). Emit ''room_status''
                         (Dict [(''status'', JStr ''sender_left''),
                                (''message'', JStr ''Sender has left the room'')])
                         (To_group (rc @ ''_recv'') None))
        (filter (\<lambda>(rc, r). sid \<in> set (senders r) \<and> receivers r \<noteq> []) (run evs []))
  \<and> (\<forall>(rc, r) \<in> set (run evs []).
        sid \<in> set (senders r) \<and> removeAll sid (receivers r) \<noteq> [] \<longrightarrow>
        Emit ''room_status''
          (Dict [(''status'', JStr ''sender_left''),
                 (''message'', JStr ''Sender has left the room'')])
          (To_group (rc @ ''_recv'') None) \<in> set out)
  \<and> (\<forall>(rc, r) \<in> set rooms'.
        sid \<notin> set (senders r) \<and> sid \<notin> set (receivers r) \<and>
        (senders r \<noteq> [] \<or> receivers r \<noteq> []))
  \<and> ((\<forall>(rc, r) \<in> set (run evs []).
         sid \<notin> set (senders r) \<and> sid \<notin> set (receivers r) \<and>
         (senders r \<noteq> [] \<or> receivers r \<noteq> [])) \<longrightarrow>
       rooms' = run evs [] \<and> out = [])
  \<and> handle_disconnect sid rooms' = (rooms', [])"
proof -
  let ?rooms = "run evs []"
  have t: "tidy ?rooms" by (rule tidy_run)
  then have d: "distinct (map fst ?rooms)" by (simp add: tidy_def)
  from assms d have r: "rooms' = survivors sid ?rooms" and o: "out = notices sid ?rooms"
    by (simp_all add: handle_disconnect_eq)
  have 1: "rooms' =
      filter (\<lambda>(rc, r). senders r \<noteq> [] \<or> receivers r \<noteq> [])
        (map (\<lambda>(rc, r). (rc, \<lparr>senders = removeAll sid (senders r),
                                 receivers = removeAll sid (receivers r)\<rparr>)) ?rooms)"
    unfolding r using t by (rule survivors_tidy)
  have 2: "out =
      map (\<lambda>(rc, r). Emit ''room_status''
                         (Dict [(''status'', JStr ''sender_left''),
                                (''message'', JStr ''Sender has left the room'')])
                         (To_group (rc @ ''_recv'') None))
        (filter (\<lambda>(rc, r). sid \<in> set (senders r) \<and> receivers r \<noteq> []) ?rooms)"
    unfolding o notices_def sender_left_def ..
  have 6: "\<forall>(rc, r) \<in> set ?rooms.
        sid \<in> set (senders r) \<and> removeAll sid (receivers r) \<noteq> [] \<longrightarrow>
        Emit ''room_status''
          (Dict [(''status'', JStr ''sender_left''),
                 (''message'', JStr ''Sender has left the room'')])
          (To_group (rc @ ''_recv'') None) \<in> set out"
    unfolding 2 by force
  have 3: "\<forall>(rc, r) \<in> set rooms'.
        sid \<notin> set (senders r) \<and> sid \<notin> set (receivers r) \<and>
        (senders r \<noteq> [] \<or> receivers r \<noteq> [])"
    unfolding 1 by auto
  have d': "distinct (map fst rooms')"
    unfolding r using d by (simp add: keys_survivors distinct_map_filter)
  have 4: "(\<forall>(rc, r) \<in> set ?rooms.
         sid \<notin> set (senders r) \<and> sid \<notin> set (receivers r) \<and>
         (senders r \<noteq> [] \<or> receivers r \<noteq> [])) \<longrightarrow>
       rooms' = ?rooms \<and> out = []"
    using handle_disconnect_absent[OF d, of sid] assms by simp
  have 5: "handle_disconnect sid rooms' = (rooms', [])"
    using d' 3 by (rule handle_disconnect_absent)
  from 1 2 6 3 4 5 show ?thesis by blast
qed

theorem handle_disconnect_run_witness:
  "handle_disconnect ''s1''
     (run [Join ''s1'' [(''code'', Some ''R1''), (''type'', Some ''sender'')],
           Join ''s2'' [(''code'', Some ''R1''), (''type'', Some ''receiver'')],
           Join ''s3'' [(''code'', Some ''R2''), (''type'', Some ''sender'')]] []) =
     ([(''R1'', \<lparr>senders = [], receivers = [''s2'']\<rparr>),
       (''R2'', \<lparr>senders = [''s3''], receivers = []\<rparr>)],
      [Emit ''room_status''
         (Dict [(''status'', JStr ''sender_left''),
                (''message'', JStr ''Sender has left the room'')])
         (To_group ''R1_recv'' None)])
 \<and> handle_disconnect ''s1''
       [(''R1'', \<lparr>senders = [], receivers = [''s2'']\<rparr>),
        (''R2'', \<lparr>senders = [''s3''], receivers = []\<rparr>)] =
     ([(''R1'', \<lparr>senders = [], receivers = [''s2'']\<rparr>),
       (''R2'', \<lparr>senders = [''s3''], receivers = []\<rparr>)], [])
 \<and> handle_disconnect ''s9''
       (run [Join ''s1'' [(''code'', Some ''R1''), (''type'', Some ''sender'')],
             Join ''s2'' [(''code'', Some ''R1''), (''type'', Some ''receiver'')],
             Join ''s3'' [(''code'', Some ''R2''), (''type'', Some ''sender'')]] []) =
     (run [Join ''s1'' [(''code'', Some ''R1''), (''type'', Some ''sender'')],
           Join ''s2'' [(''code'', Some ''R1''), (''type'', Some ''receiver'')],
           Join ''s3'' [(''code'', Some ''R2''), (''type'', Some ''sender'')]] [], [])"
proof -
  let ?evs = "[Join ''s1'' [(''code'', Some ''R1''), (''type'', Some ''sender'')],
               Join ''s2'' [(''code'', Some ''R1''), (''type'', Some ''receiver'')],
               Join ''s3'' [(''code'', Some ''R2''), (''type'', Some ''sender'')]]"
  have e: "run ?evs [] =
             [(''R1'', \<lparr>senders = [''s1''], receivers = [''s2'']\<rparr>),
              (''R2'', \<lparr>senders = [''s3''], receivers = []\<rparr>)]"
    by (simp add: run_def on_join_def get_def joined_def no_room_def)
  have h1: "handle_disconnect ''s1'' (run ?evs []) =
     ([(''R1'', \<lparr>senders = [], receivers = [''s2'']\<rparr>),
       (''R2'', \<lparr>senders = [''s3''], receivers = []\<rparr>)],
      [Emit ''room_status''
         (Dict [(''status'', JStr ''sender_left''),
                (''message'', JStr ''Sender has left the room'')])
         (To_group ''R1_recv'' None)])"
    unfolding e by (simp add: handle_disconnect_def disconnect_room_def)
  have h2: "handle_disconnect ''s9'' (run ?evs []) = (run ?evs [], [])"
    unfolding e by (simp add: handle_disconnect_def disconnect_room_def)
  have i1: "handle_disconnect ''s1''
       [(''R1'', \<lparr>senders = [], receivers = [''s2'']\<rparr>),
        (''R2'', \<lparr>senders = [''s3''], receivers = []\<rparr>)] =
     ([(''R1'', \<lparr>senders = [], receivers = [''s2'']\<rparr>),
       (''R2'', \<lparr>senders = [''s3''], receivers = []\<rparr>)], [])"
    using handle_disconnect_run[OF h1] by blast
  have i2: "handle_disconnect ''s9'' (run ?evs []) = (run ?evs [], [])"
    using handle_disconnect_run[OF h2] by blast
  from h1 i1 i2 show ?thesis by (intro conjI)
qed

subsection \<open>Rooms with nobody in them\<close>

text \<open>
  Apart from a join with an unknown device type, no handler leaves a room whose two
  lists are empty: a join as \<open>sender\<close> or \<open>receiver\<close> puts the connection in a list of
  its room, and a disconnect deletes every room it finds empty.
\<close>

lemma joined_not_deserted:
  assumes "dt = ''sender'' \<or> dt = ''receiver''"
    and "\<forall>(rc, r) \<in> set rooms. \<not> deserted r"
    and "(rc', r') \<in> set (fst (joined sid rc dt rooms))"
  shows "\<not> deserted r'"
proof -
  define room0 where "room0 = (case map_of rooms rc of None \<Rightarrow> no_room | Some r \<Rightarrow> r)"
  define room1 where "room1 =
            (if dt = ''sender''
             then (if sid \<notin> set (senders room0)
                   then room0\<lparr>senders := senders room0 @ [sid]\<rparr> else room0)
             else if dt = ''receiver''
             then (if sid \<notin> set (receivers room0)
                   then room0\<lparr>receivers := receivers room0 @ [sid]\<rparr> else room0)
             else room0)"
  have "fst (joined sid rc dt rooms) = AList.update rc room1 rooms"
    by (simp add: joined_def Let_def room0_def room1_def)
  with assms(3) set_update_subset[of rc room1 rooms]
  have "(rc', r') \<in> set rooms \<or> r' = room1" by auto
  moreover from assms(1) have "\<not> deserted room1"
    by (auto simp: room1_def deserted_def)
  ultimately show ?thesis using assms(2) by auto
qed

lemma no_deserted_run:
  "known_roles evs \<Longrightarrow> \<forall>(rc, r) \<in> set (run evs []). \<not> deserted r"
proof (induction evs rule: rev_induct)
  case Nil
  show ?case by (simp add: run_Nil)
next
  case (snoc e evs)
  let ?rooms = "run evs []"
  from snoc have IH: "\<forall>(rc, r) \<in> set ?rooms. \<not> deserted r"
    and e: "known_roles [e]"
    by (simp_all add: known_roles_def)
  show ?case
  proof (cases e)
    case (Disconnect x)
    have "distinct (map fst ?rooms)" using tidy_run[of evs] by (simp add: tidy_def)
    then show ?thesis
      by (auto simp: run_snoc Disconnect handle_disconnect_eq set_survivors)
  next
    case (Join x d)
    from fst_on_join[of x d ?rooms] show ?thesis
    proof
      assume "fst (on_join x d ?rooms) = ?rooms"
      with IH show ?thesis by (simp add: run_snoc Join)
    next
      assume "\<exists>c dt. get d ''code'' = Some c \<and> c \<noteq> [] \<and> get d ''type'' = Some dt \<and> dt \<noteq> [] \<and>
        fst (on_join x d ?rooms) = fst (joined x c dt ?rooms)"
      then obtain c dt where c: "get d ''code'' = Some c" "c \<noteq> []" "get d ''type'' = Some dt"
        "dt \<noteq> []" and j: "fst (on_join x d ?rooms) = fst (joined x c dt ?rooms)" by blast
      from e c Join have "dt = ''sender'' \<or> dt = ''receiver''"
        by (simp add: known_roles_def)
      from joined_not_deserted[OF this IH] show ?thesis
        by (auto simp: run_snoc Join j)
    qed
  qed (use IH in \<open>simp_all add: run_snoc fst_handle_text fst_handle_live_control\<close>)
qed

text \<open>
  Claim C1. The claim: after every operation a room is in the registry only when one of
  its two lists is non-empty. \<open>no_deserted_run\<close> shows that joins as \<open>sender\<close> or
  \<open>receiver\<close>, disconnects and the two relays keep it so. But \<open>on_join\<close> creates the room
  before it looks at the device type, and a type other than \<open>sender\<close> and \<open>receiver\<close>
  adds the connection to neither list. Here a sender joins \<open>R1\<close> and then a connection
  joins \<open>R2\<close> with the type \<open>viewer\<close>: \<open>R2\<close> is left in the registry with both lists
  empty.
\<close>

theorem run_leaves_empty_room:
  "run [Join ''s1'' [(''code'', Some ''R1''), (''type'', Some ''sender'')],
        Join ''s2'' [(''code'', Some ''R2''), (''type'', Some ''viewer'')]] [] =
     [(''R1'', \<lparr>senders = [''s1''], receivers = []\<rparr>),
      (''R2'', \<lparr>senders = [], receivers = []\<rparr>)]"
  by (simp add: run_def on_join_def get_def joined_def no_room_def)

end
